theory Spec2Isabelle
  imports Complex_Main "HOL-Library.Word" "HOL-Library.Sublist" "HOL-Library.Multiset"
    "HOL-Library.List_Lexorder"
begin

section \<open>JavaScript values as the lead engine sees them\<close>

text \<open>
  A JavaScript string is a sequence of UTF-16 code units. Property names of \<open>crm_raw\<close>
  that the code reads are plain ASCII identifiers and are kept as HOL strings.
\<close>

type_synonym jsstring = "16 word list"

definition str :: "string \<Rightarrow> jsstring" where
  "str s = map (\<lambda>c. of_nat (of_char c)) s"

text \<open>
  The result of \<open>Number(v)\<close>: a finite number, or one of the three non-finite values.
  Finite doubles are embedded in the rationals; only comparison and equality are used on
  them, and both zeros compare equal and are falsy, as the one rational zero is.
\<close>

datatype jsnum = Fin rat | NaN | PosInf | NegInf

text \<open>
  A value stored under a key of \<open>crm_raw\<close>. \<open>JObject s\<close> is an array or a plain object,
  carrying the string its conversion to a primitive yields (\<open>[]\<close> gives the empty string,
  \<open>[5]\<close> gives \<open>5\<close>); \<open>JUndefined\<close> is what reading an absent key returns.
\<close>

datatype jsvalue =
    JUndefined
  | JNull
  | JBool bool
  | JNum rat
  | JStr jsstring
  | JObject jsstring

text \<open>
  What the program takes from its host and from the date library: the conversion of a
  string to a number, the printing of a number inside a template literal, the locale
  comparison of two strings, \<open>new Date(s).getTime()\<close> and the time value of
  \<open>parseISO(s)\<close> (\<open>None\<close> is an invalid date), and what date-fns computes on valid
  instants (milliseconds since the epoch): the difference in calendar days, the
  same-year test and the formatting under a pattern. \<open>TODAY\<close> is the instant at which
  the module was loaded.
\<close>

record host =
  stringToNumber :: "jsstring \<Rightarrow> jsnum"
  numberToString :: "rat \<Rightarrow> jsstring"
  localeCompare :: "jsstring \<Rightarrow> jsstring \<Rightarrow> int"
  dateParse :: "jsstring \<Rightarrow> int option"
  parseISO :: "jsstring \<Rightarrow> int option"
  calendarDayDiff :: "int \<Rightarrow> int \<Rightarrow> int"
  sameYear :: "int \<Rightarrow> int \<Rightarrow> bool"
  formatValid :: "int \<Rightarrow> jsstring \<Rightarrow> jsstring"
  TODAY :: int

section \<open>The data model (types/leads.ts)\<close>

datatype LeadStatus = LEAD | REACHED_OUT | ERROR

record OutreachHistoryEntry =
  date :: "jsstring option"
  success :: bool
  entry_note :: "jsstring option"

record Lead =
  property_id :: jsstring
  display_id :: jsstring
  title :: jsstring
  date_added :: jsstring
  lister_name :: jsstring
  lister_phone :: "jsstring option"
  status :: LeadStatus
  outreach_history :: "OutreachHistoryEntry list"
  crm_raw :: "(string \<rightharpoonup> jsvalue) option"
  last_message_excerpt :: "jsstring option"
  last_message_at :: "jsstring option"
  unread_count :: "nat option"

section \<open>Filter specification (lib/leads.ts)\<close>

datatype RoomsFilter = RoomsAll | Rooms1 | Rooms2 | Rooms3 | Rooms4 | Rooms5Plus

record Transaction =
  sale :: bool
  rent :: bool

text \<open>
  The numeric fields of a filter specification are finite numbers: they are produced by
  \<open>Number\<close> on the value of a number input or of a select option built from a facet.
\<close>

record LeadFilters =
  propertyTypes :: "rat list"
  regionId :: "rat option"
  zoneId :: "rat option"
  transaction :: Transaction
  rooms :: RoomsFilter
  minBudget :: "rat option"
  maxBudget :: "rat option"
  dateFrom :: "jsstring option"
  dateTo :: "jsstring option"

definition DEFAULT_LEAD_FILTERS :: LeadFilters where
  "DEFAULT_LEAD_FILTERS =
     \<lparr> propertyTypes = [], regionId = None, zoneId = None,
       transaction = \<lparr> sale = False, rent = False \<rparr>,
       rooms = RoomsAll, minBudget = None, maxBudget = None,
       dateFrom = None, dateTo = None \<rparr>"

section \<open>Coercions\<close>

text \<open>\<open>Number(value)\<close> on a value of \<open>crm_raw\<close>.\<close>

fun Number :: "host \<Rightarrow> jsvalue \<Rightarrow> jsnum" where
  "Number h JUndefined = NaN"
| "Number h JNull = Fin 0"
| "Number h (JBool b) = Fin (if b then 1 else 0)"
| "Number h (JNum r) = Fin r"
| "Number h (JStr s) = stringToNumber h s"
| "Number h (JObject s) = stringToNumber h s"

text \<open>\<open>Boolean(value)\<close>.\<close>

fun Boolean :: "jsvalue \<Rightarrow> bool" where
  "Boolean JUndefined = False"
| "Boolean JNull = False"
| "Boolean (JBool b) = b"
| "Boolean (JNum r) = (r \<noteq> 0)"
| "Boolean (JStr s) = (s \<noteq> [])"
| "Boolean (JObject s) = True"

text \<open>\<open>toNumber\<close>: \<open>None\<close> is \<open>undefined\<close>.\<close>

definition toNumber :: "host \<Rightarrow> jsvalue \<Rightarrow> rat option" where
  "toNumber h v =
     (if v = JNull \<or> v = JUndefined \<or> v = JStr [] then None
      else case Number h v of Fin r \<Rightarrow> Some r | _ \<Rightarrow> None)"

text \<open>\<open>lead.crm_raw ?? {}\<close>, then the read of one key.\<close>

definition rawOf :: "Lead \<Rightarrow> string \<Rightarrow> jsvalue" where
  "rawOf l k =
     (case crm_raw l of
        None \<Rightarrow> JUndefined
      | Some m \<Rightarrow> (case m k of None \<Rightarrow> JUndefined | Some v \<Rightarrow> v))"

text \<open>\<open>!x\<close> for \<open>x\<close> a number or \<open>undefined\<close>.\<close>

definition falsyNum :: "rat option \<Rightarrow> bool" where
  "falsyNum x = (case x of None \<Rightarrow> True | Some r \<Rightarrow> r = 0)"

text \<open>Truthiness of an optional string: \<open>undefined\<close> and the empty string are falsy.\<close>

definition truthyStr :: "jsstring option \<Rightarrow> bool" where
  "truthyStr x = (case x of None \<Rightarrow> False | Some s \<Rightarrow> s \<noteq> [])"

text \<open>\<open>a < b\<close> on the time values of two dates; an invalid date makes it false.\<close>

definition timeLess :: "int option \<Rightarrow> int option \<Rightarrow> bool" where
  "timeLess a b = (case (a, b) of (Some x, Some y) \<Rightarrow> x < y | _ \<Rightarrow> False)"

section \<open>applyLeadFilters\<close>

definition propertyTypeClause :: "host \<Rightarrow> LeadFilters \<Rightarrow> Lead \<Rightarrow> bool" where
  "propertyTypeClause h f l =
     (if propertyTypes f \<noteq> [] then
        (let propType = toNumber h (rawOf l ''property_type'') in
         if falsyNum propType \<or> the propType \<notin> set (propertyTypes f)
         then False else True)
      else True)"

definition regionClause :: "host \<Rightarrow> LeadFilters \<Rightarrow> Lead \<Rightarrow> bool" where
  "regionClause h f l =
     (if regionId f \<noteq> None then
        (let rid = toNumber h (rawOf l ''region_obj_id'') in
         if falsyNum rid \<or> rid \<noteq> regionId f then False else True)
      else True)"

definition zoneClause :: "host \<Rightarrow> LeadFilters \<Rightarrow> Lead \<Rightarrow> bool" where
  "zoneClause h f l =
     (if zoneId f \<noteq> None then
        (let zid = toNumber h (rawOf l ''zone_id'') in
         if falsyNum zid \<or> zid \<noteq> zoneId f then False else True)
      else True)"

definition transactionClause :: "LeadFilters \<Rightarrow> Lead \<Rightarrow> bool" where
  "transactionClause f l =
     (let saleSelected = sale (transaction f); rentSelected = rent (transaction f) in
      if saleSelected \<or> rentSelected then
        (let isSale = Boolean (rawOf l ''for_sale'');
             isRent = Boolean (rawOf l ''for_rent'') in
         if saleSelected \<and> \<not> rentSelected \<and> \<not> isSale then False
         else if \<not> saleSelected \<and> rentSelected \<and> \<not> isRent then False
         else if saleSelected \<and> rentSelected \<and> \<not> isSale \<and> \<not> isRent then False
         else True)
      else True)"

text \<open>\<open>Number(filters.rooms)\<close> for the choices \<open>"1"\<close> to \<open>"4"\<close>; the clause never
  asks for it on the other two choices.\<close>

fun roomsNumber :: "RoomsFilter \<Rightarrow> rat" where
  "roomsNumber Rooms1 = 1"
| "roomsNumber Rooms2 = 2"
| "roomsNumber Rooms3 = 3"
| "roomsNumber Rooms4 = 4"
| "roomsNumber _ = 0"

definition roomsClause :: "host \<Rightarrow> LeadFilters \<Rightarrow> Lead \<Rightarrow> bool" where
  "roomsClause h f l =
     (if rooms f \<noteq> RoomsAll then
        (case toNumber h (rawOf l ''rooms'') of
           None \<Rightarrow> False
         | Some n \<Rightarrow>
             (if rooms f = Rooms5Plus then (if n < 5 then False else True)
              else (if n \<noteq> roomsNumber (rooms f) then False else True)))
      else True)"

definition withinRange :: "LeadFilters \<Rightarrow> rat option \<Rightarrow> bool" where
  "withinRange f price =
     (case price of
        None \<Rightarrow> False
      | Some p \<Rightarrow>
          (if minBudget f \<noteq> None \<and> p < the (minBudget f) then False
           else if maxBudget f \<noteq> None \<and> p > the (maxBudget f) then False
           else True))"

definition budgetClause :: "host \<Rightarrow> LeadFilters \<Rightarrow> Lead \<Rightarrow> bool" where
  "budgetClause h f l =
     (let saleSelected = sale (transaction f); rentSelected = rent (transaction f);
          hasBudget = (minBudget f \<noteq> None \<or> maxBudget f \<noteq> None) in
      if hasBudget then
        (let priceSale = toNumber h (rawOf l ''price_sale'');
             priceRent = toNumber h (rawOf l ''price_rent'');
             matchesBudget =
               (if saleSelected \<and> \<not> rentSelected then withinRange f priceSale
                else if \<not> saleSelected \<and> rentSelected then withinRange f priceRent
                else if saleSelected \<and> rentSelected
                  then withinRange f priceSale \<or> withinRange f priceRent
                else withinRange f priceSale \<or> withinRange f priceRent) in
         if \<not> matchesBudget then False else True)
      else True)"

definition dateClause :: "host \<Rightarrow> LeadFilters \<Rightarrow> Lead \<Rightarrow> bool" where
  "dateClause h f l =
     (if truthyStr (dateFrom f) \<or> truthyStr (dateTo f) then
        (let addedDate = dateParse h (date_added l) in
         if addedDate = None then False
         else if truthyStr (dateFrom f) \<and>
                 timeLess addedDate (dateParse h (the (dateFrom f) @ str ''T00:00:00''))
           then False
         else if truthyStr (dateTo f) \<and>
                 timeLess (dateParse h (the (dateTo f) @ str ''T23:59:59'')) addedDate
           then False
         else True)
      else True)"

text \<open>The callback given to \<open>leads.filter\<close>: the clauses in the order of the source,
  each returning \<open>false\<close> early.\<close>

definition leadMatches :: "host \<Rightarrow> LeadFilters \<Rightarrow> Lead \<Rightarrow> bool" where
  "leadMatches h f l =
     (if \<not> propertyTypeClause h f l then False
      else if \<not> regionClause h f l then False
      else if \<not> zoneClause h f l then False
      else if \<not> transactionClause f l then False
      else if \<not> roomsClause h f l then False
      else if \<not> budgetClause h f l then False
      else if \<not> dateClause h f l then False
      else True)"

definition applyLeadFilters :: "host \<Rightarrow> Lead list \<Rightarrow> LeadFilters \<Rightarrow> Lead list" where
  "applyLeadFilters h leads f =
     (if leads = [] then leads else filter (leadMatches h f) leads)"


section \<open>Array.prototype.sort\<close>

text \<open>
  A comparator returns a number; \<open>None\<close> stands for \<open>NaN\<close>, which the sort reads as
  \<open>+0\<close>. The sort is stable: an element moves behind another one only when the
  comparator is positive on the pair. For a comparator that is not a consistent ordering
  the language leaves the result to the engine; the insertion order below is then one
  of the permitted results.
\<close>

definition comesAfter :: "('a \<Rightarrow> 'a \<Rightarrow> int option) \<Rightarrow> 'a \<Rightarrow> 'a \<Rightarrow> bool" where
  "comesAfter cmp x y = (case cmp x y of None \<Rightarrow> False | Some d \<Rightarrow> 0 < d)"

fun sortInsert :: "('a \<Rightarrow> 'a \<Rightarrow> int option) \<Rightarrow> 'a \<Rightarrow> 'a list \<Rightarrow> 'a list" where
  "sortInsert cmp x [] = [x]"
| "sortInsert cmp x (y # ys) =
     (if comesAfter cmp x y then y # sortInsert cmp x ys else x # y # ys)"

definition arraySort :: "('a \<Rightarrow> 'a \<Rightarrow> int option) \<Rightarrow> 'a list \<Rightarrow> 'a list" where
  "arraySort cmp xs = foldr (sortInsert cmp) xs []"

section \<open>Day headers (lib/dates.ts)\<close>

datatype jserror = RangeError

text \<open>
  A \<open>Date\<close> object is its time value, \<open>None\<close> for an invalid date. \<open>parseISO\<close> returns
  an invalid date for a string it cannot read and does not throw, so the handler of
  \<open>ensureDate\<close> is never entered; \<open>ensureDate\<close> returns \<open>null\<close> (the outer \<open>None\<close>)
  for the empty string only.
\<close>

definition ensureDate :: "host \<Rightarrow> jsstring \<Rightarrow> int option option" where
  "ensureDate h v = (if v = [] then None else Some (parseISO h v))"

text \<open>date-fns on a date that may be invalid: the difference is \<open>NaN\<close> (\<open>None\<close>), the
  same-year test is false, and \<open>format\<close> throws a \<open>RangeError\<close>.\<close>

definition differenceInCalendarDays :: "host \<Rightarrow> int \<Rightarrow> int option \<Rightarrow> int option" where
  "differenceInCalendarDays h a d =
     (case d of None \<Rightarrow> None | Some t \<Rightarrow> Some (calendarDayDiff h a t))"

definition isSameYear :: "host \<Rightarrow> int option \<Rightarrow> int \<Rightarrow> bool" where
  "isSameYear h d a = (case d of None \<Rightarrow> False | Some t \<Rightarrow> sameYear h t a)"

definition format :: "host \<Rightarrow> int option \<Rightarrow> jsstring \<Rightarrow> jserror + jsstring" where
  "format h d p = (case d of None \<Rightarrow> Inl RangeError | Some t \<Rightarrow> Inr (formatValid h t p))"

definition formatDayHeader :: "host \<Rightarrow> jsstring \<Rightarrow> jserror + jsstring" where
  "formatDayHeader h v =
     (case ensureDate h v of
        None \<Rightarrow> Inr (str ''Unknown date'')
      | Some d \<Rightarrow>
          (if differenceInCalendarDays h (TODAY h) d = Some 0 then Inr (str ''Today'')
           else if differenceInCalendarDays h (TODAY h) d = Some 1 then Inr (str ''Yesterday'')
           else format h d
                  (if isSameYear h d (TODAY h) then str ''d MMM'' else str ''d MMM yyyy'')))"

section \<open>groupByDateAdded\<close>

record LeadGroup =
  label :: jsstring
  leads :: "Lead list"

text \<open>The sort comparator: \<open>bTime - aTime\<close>, \<open>NaN\<close> when either date is invalid.\<close>

definition compareDateAdded :: "host \<Rightarrow> Lead \<Rightarrow> Lead \<Rightarrow> int option" where
  "compareDateAdded h a b =
     (case (parseISO h (date_added a), parseISO h (date_added b)) of
        (Some aTime, Some bTime) \<Rightarrow> Some (bTime - aTime)
      | _ \<Rightarrow> None)"

text \<open>The \<open>Map\<close> from label to bucket keeps its keys in insertion order: a known label
  gets the lead pushed on its bucket, a new label is added at the end.\<close>

fun bucketPush ::
  "(jsstring \<times> Lead list) list \<Rightarrow> jsstring \<Rightarrow> Lead \<Rightarrow> (jsstring \<times> Lead list) list" where
  "bucketPush [] lab l = [(lab, [l])]"
| "bucketPush ((k, b) # m) lab l =
     (if k = lab then (k, b @ [l]) # m else (k, b) # bucketPush m lab l)"

fun groupLoop ::
  "host \<Rightarrow> (jsstring \<times> Lead list) list \<Rightarrow> Lead list \<Rightarrow>
   jserror + (jsstring \<times> Lead list) list" where
  "groupLoop h m [] = Inr m"
| "groupLoop h m (l # ls) =
     (case formatDayHeader h (date_added l) of
        Inl e \<Rightarrow> Inl e
      | Inr lab \<Rightarrow> groupLoop h (bucketPush m lab l) ls)"

definition groupByDateAdded :: "host \<Rightarrow> Lead list \<Rightarrow> jserror + LeadGroup list" where
  "groupByDateAdded h ls =
     (let sorted = arraySort (compareDateAdded h) ls in
      case groupLoop h [] sorted of
        Inl e \<Rightarrow> Inl e
      | Inr m \<Rightarrow> Inr (map (\<lambda>(lab, groupedLeads). \<lparr> label = lab, leads = groupedLeads \<rparr>) m))"

section \<open>deriveFilterOptions\<close>

record OptionItem =
  "value" :: rat
  label :: jsstring

record FilterOptions =
  propertyTypes :: "OptionItem list"
  regions :: "OptionItem list"
  zones :: "OptionItem list"





text \<open>\<open>Set.add\<close>, \<open>Map.has\<close> and \<open>Map.set\<close> on collections kept in insertion order.\<close>

definition setAdd :: "'a list \<Rightarrow> 'a \<Rightarrow> 'a list" where
  "setAdd xs x = (if x \<in> set xs then xs else xs @ [x])"









section \<open>The lead queue page: bulk send\<close>

datatype Tone = ToneInfo | ToneSuccess | ToneError

record Banner =
  tone :: Tone
  message :: jsstring

text \<open>
  The state of the page that the handler touches. A \<open>Set\<close> of ids is the list of its
  members in insertion order. Two more fields record what the handler does to the
  outside: the ids passed to \<open>sendWhatsApp\<close>, in call order, and the number of calls of
  \<open>mutate\<close> (the refresh of the lead list).
\<close>

record Dashboard =
  multiSelectMode :: bool
  selectedIds :: "jsstring list"
  pendingIds :: "jsstring list"
  banner :: "Banner option"
  sendCalls :: "jsstring list"
  refreshCalls :: nat

text \<open>
  The \<open>for\<close> loop over the ids. \<open>sendOk pid\<close> tells whether the awaited call for that id
  resolves (\<open>True\<close>) or throws. The accumulator is \<open>successCount\<close>, \<open>failureCount\<close> and
  the calls made so far.
\<close>

fun bulkLoop ::
  "(jsstring \<Rightarrow> bool) \<Rightarrow> jsstring list \<Rightarrow> nat \<times> nat \<times> jsstring list \<Rightarrow>
   nat \<times> nat \<times> jsstring list" where
  "bulkLoop sendOk [] acc = acc"
| "bulkLoop sendOk (pid # ids) (successCount, failureCount, calls) =
     (if sendOk pid
      then bulkLoop sendOk ids (successCount + 1, failureCount, calls @ [pid])
      else bulkLoop sendOk ids (successCount, failureCount + 1, calls @ [pid]))"

definition bulkBanner :: "host \<Rightarrow> nat \<Rightarrow> nat \<Rightarrow> Banner" where
  "bulkBanner h successCount failureCount =
     (if failureCount = 0 then
        \<lparr> tone = ToneSuccess,
          message = str ''Sent '' @ numberToString h (of_nat successCount)
                    @ str '' WhatsApp message''
                    @ (if successCount = 1 then [] else str ''s'') @ str ''.'' \<rparr>
      else
        \<lparr> tone = ToneError,
          message = str ''Sent '' @ numberToString h (of_nat successCount)
                    @ str '' messages, '' @ numberToString h (of_nat failureCount)
                    @ str '' failed.'' \<rparr>)"

definition handleBulkSend :: "host \<Rightarrow> (jsstring \<Rightarrow> bool) \<Rightarrow> Dashboard \<Rightarrow> Dashboard" where
  "handleBulkSend h sendOk st =
     (if length (selectedIds st) = 0 then st
      else
        (let st1 = st\<lparr> banner := None \<rparr>;
             ids = selectedIds st;
             st2 = st1\<lparr> pendingIds := foldl setAdd (pendingIds st1) ids \<rparr>
         in case bulkLoop sendOk ids (0, 0, sendCalls st2) of
              (successCount, failureCount, calls) \<Rightarrow>
                (let st3 = st2\<lparr> sendCalls := calls \<rparr>;
                     st4 = (if successCount > 0
                            then st3\<lparr> refreshCalls := refreshCalls st3 + 1 \<rparr> else st3);
                     st5 = st4\<lparr> pendingIds := [], selectedIds := [],
                                multiSelectMode := False \<rparr>
                 in st5\<lparr> banner := Some (bulkBanner h successCount failureCount) \<rparr>)))"

section \<open>The conversation panel: sending a reply\<close>

datatype Direction = inbound | outbound

record ConversationMessage =
  message_id :: "jsstring option"
  direction :: Direction
  message :: jsstring
  message_type :: jsstring
  timestamp :: jsstring
  status :: "jsstring option"


text \<open>
  The state of the panel: the draft, the inline error, and the message list held by the
  polling hook. Four more fields record what the handler does to the outside: the texts
  passed to \<open>sendLeadReply\<close>, and the numbers of calls of \<open>mutate\<close> (the refresh of the
  message stream), of \<open>onRefreshLeads\<close> and of \<open>focus\<close> on the input. Neither refresh
  throws: the hook records a failed fetch in its own error state.
\<close>

record Conversation =
  draft :: jsstring
  sendError :: "jsstring option"
  messages :: "ConversationMessage list"
  replyCalls :: "jsstring list"
  messageRefreshes :: nat
  leadRefreshes :: nat
  focusCalls :: nat



section \<open>The budget clause in the words of the specification\<close>

text \<open>
  Within range: the value is present, and there is no minimum or the value is at least
  it, and there is no maximum or the value is at most it.
\<close>

definition withinRangeSpec :: "rat option \<Rightarrow> rat option \<Rightarrow> rat option \<Rightarrow> bool" where
  "withinRangeSpec minB maxB price =
     (price \<noteq> None \<and> (minB = None \<or> the minB \<le> the price)
                    \<and> (maxB = None \<or> the price \<le> the maxB))"

text \<open>
  Only sale selected: the sale price is within range. Only rent selected: the rent price
  is. Both or neither selected: one of the two prices is.
\<close>

definition budgetSpec ::
  "bool \<Rightarrow> bool \<Rightarrow> rat option \<Rightarrow> rat option \<Rightarrow> rat option \<Rightarrow> rat option \<Rightarrow> bool" where
  "budgetSpec saleSel rentSel minB maxB priceSale priceRent =
     (if saleSel \<and> \<not> rentSel then withinRangeSpec minB maxB priceSale
      else if rentSel \<and> \<not> saleSel then withinRangeSpec minB maxB priceRent
      else withinRangeSpec minB maxB priceSale \<or> withinRangeSpec minB maxB priceRent)"

section \<open>A concrete host and concrete leads\<close>

text \<open>
  A small deterministic host on which the model runs: strings of decimal digits convert
  to naturals, numbers print their integer part, strings compare by their ASCII
  case-folded code units, three dates are known to both date parsers, and calendar days
  are the days of universal time.
\<close>

fun showNat :: "nat \<Rightarrow> jsstring" where
  "showNat n = (if n < 10 then [of_nat (48 + n)]
                else showNat (n div 10) @ [of_nat (48 + n mod 10)])"

definition isDigit :: "16 word \<Rightarrow> bool" where
  "isDigit c = (48 \<le> c \<and> c \<le> 57)"

definition readNat :: "jsstring \<Rightarrow> nat" where
  "readNat s = foldl (\<lambda>a c. 10 * a + (unat c - 48)) 0 s"

definition foldCase :: "16 word \<Rightarrow> 16 word" where
  "foldCase c = (if 65 \<le> c \<and> c \<le> 90 then c + 32 else c)"

definition knownDates :: "(jsstring \<times> int) list" where
  "knownDates =
     [ (str ''2024-01-01'', 1704067200000),
       (str ''2024-01-02'', 1704153600000),
       (str ''2024-01-02T12:00:00Z'', 1704196800000),
       (str ''2024-01-03'', 1704240000000) ]"

definition msPerDay :: int where
  "msPerDay = 86400000"

definition testHost :: host where
  "testHost =
     \<lparr> stringToNumber = (\<lambda>s. if s \<noteq> [] \<and> list_all isDigit s
                              then Fin (of_nat (readNat s)) else NaN),
       numberToString = (\<lambda>r. showNat (nat \<lfloor>r\<rfloor>)),
       localeCompare = (\<lambda>a b. if map foldCase a < map foldCase b then - 1
                              else if map foldCase a = map foldCase b then 0 else 1),
       dateParse = map_of knownDates,
       parseISO = map_of knownDates,
       calendarDayDiff = (\<lambda>a b. a div msPerDay - b div msPerDay),
       sameYear = (\<lambda>a b. a div (365 * msPerDay) = b div (365 * msPerDay)),
       formatValid = (\<lambda>t p. p @ str '' of day '' @ showNat (nat (t div msPerDay))),
       TODAY = 1704240000000 \<rparr>"

definition mkLead :: "string \<Rightarrow> string \<Rightarrow> (string \<times> jsvalue) list \<Rightarrow> Lead" where
  "mkLead pid d raw =
     \<lparr> property_id = str pid, display_id = str pid, title = [], date_added = str d,
       lister_name = [], lister_phone = None, status = LEAD, outreach_history = [],
       crm_raw = Some (map_of raw), last_message_excerpt = None, last_message_at = None,
       unread_count = None \<rparr>"

text \<open>The lead and the filters of the budget scenario.\<close>

definition p1 :: Lead where
  "p1 = mkLead ''p1'' ''2024-01-01''
          [(''property_type'', JNum 1), (''for_sale'', JBool True), (''price_sale'', JNum 100000)]"

definition scenarioFilters :: "rat \<Rightarrow> LeadFilters" where
  "scenarioFilters maxB =
     DEFAULT_LEAD_FILTERS\<lparr> LeadFilters.propertyTypes := [1],
       transaction := \<lparr> sale = True, rent = False \<rparr>,
       minBudget := Some 50000, maxBudget := Some maxB \<rparr>"

text \<open>A lead whose region id is the number zero, and the filter that asks for region
  zero and nothing else.\<close>

definition regionZeroLead :: Lead where
  "regionZeroLead = mkLead ''r0'' ''2024-01-01'' [(''region_obj_id'', JNum 0)]"

definition regionZeroFilters :: LeadFilters where
  "regionZeroFilters = DEFAULT_LEAD_FILTERS\<lparr> regionId := Some 0 \<rparr>"

text \<open>A page with three selected ids, and a backend that fails on the second.\<close>

definition threeSelected :: Dashboard where
  "threeSelected =
     \<lparr> multiSelectMode = True, selectedIds = [str ''a'', str ''b'', str ''c''],
       pendingIds = [str ''z''], banner = None, sendCalls = [], refreshCalls = 0 \<rparr>"

definition secondFails :: "jsstring \<Rightarrow> bool" where
  "secondFails pid = (pid \<noteq> str ''b'')"






section \<open>Notions used to state the grouping properties\<close>

text \<open>The instant of a lead whose \<open>date_added\<close> parses.\<close>

definition instant :: "host \<Rightarrow> Lead \<Rightarrow> int" where
  "instant h l = the (parseISO h (date_added l))"

text \<open>The header that \<open>formatDayHeader\<close> computes for a valid instant.\<close>

definition dayLabel :: "host \<Rightarrow> int \<Rightarrow> jsstring" where
  "dayLabel h t =
     (if calendarDayDiff h (TODAY h) t = 0 then str ''Today''
      else if calendarDayDiff h (TODAY h) t = 1 then str ''Yesterday''
      else formatValid h t
             (if sameYear h t (TODAY h) then str ''d MMM'' else str ''d MMM yyyy''))"

definition labelOf :: "host \<Rightarrow> Lead \<Rightarrow> jsstring" where
  "labelOf h l = dayLabel h (instant h l)"

definition parses :: "host \<Rightarrow> Lead \<Rightarrow> bool" where
  "parses h l = (date_added l \<noteq> [] \<and> parseISO h (date_added l) \<noteq> None)"




text \<open>Leads of three days, and one whose date is not a date.\<close>

definition jan3Lead :: Lead where
  "jan3Lead = mkLead ''b'' ''2024-01-03'' []"

definition jan2Lead :: Lead where
  "jan2Lead = mkLead ''c'' ''2024-01-02'' []"

definition jan2NoonLead :: Lead where
  "jan2NoonLead = mkLead ''d'' ''2024-01-02T12:00:00Z'' []"

definition undatedLead :: Lead where
  "undatedLead = mkLead ''u'' ''not a date'' []"

definition blankDateLead :: Lead where
  "blankDateLead = mkLead ''e'' [] []"










section \<open>Notions used to state the facet properties\<close>

text \<open>
  A comparator is consistent when it never puts two strings each strictly behind the
  other and its ``not behind'' relation is transitive.
\<close>

definition consistentComparator :: "(jsstring \<Rightarrow> jsstring \<Rightarrow> int) \<Rightarrow> bool" where
  "consistentComparator c =
     ((\<forall>a b. 0 < c a b \<longrightarrow> c b a \<le> 0)
      \<and> (\<forall>a b d. c a b \<le> 0 \<and> c b d \<le> 0 \<longrightarrow> c a d \<le> 0))"





text \<open>
  A host without locale data, whose \<open>localeCompare\<close> compares code units, as the
  language permits.
\<close>

definition codeUnitHost :: host where
  "codeUnitHost =
     testHost\<lparr> localeCompare := (\<lambda>a b. if a < b then - 1 else if a = b then 0 else 1) \<rparr>"









section \<open>Properties of applyLeadFilters\<close>

lemmas clause_defs =
  propertyTypeClause_def regionClause_def zoneClause_def transactionClause_def
  roomsClause_def budgetClause_def dateClause_def

lemma leadMatches_conj:
  "leadMatches h f l =
     (propertyTypeClause h f l \<and> regionClause h f l \<and> zoneClause h f l \<and>
      transactionClause f l \<and> roomsClause h f l \<and> budgetClause h f l \<and> dateClause h f l)"
  by (simp add: leadMatches_def)

lemma applyLeadFilters_filter: "applyLeadFilters h ls f = filter (leadMatches h f) ls"
  by (simp add: applyLeadFilters_def)

lemma leadMatches_default: "leadMatches h DEFAULT_LEAD_FILTERS l"
  by (simp add: leadMatches_def DEFAULT_LEAD_FILTERS_def clause_defs truthyStr_def)

text \<open>
  C1. With the default filter specification every clause is inactive, so
  \<open>applyLeadFilters\<close> returns its input list unchanged, for every list of leads.
\<close>

theorem default_filters_keep_every_lead:
  "applyLeadFilters h ls DEFAULT_LEAD_FILTERS = ls"
  by (simp add: applyLeadFilters_filter leadMatches_default)

theorem default_filters_keep_every_lead_witness:
  "applyLeadFilters testHost [p1, regionZeroLead, mkLead ''p3'' ''not a date'' []]
     DEFAULT_LEAD_FILTERS
   = [p1, regionZeroLead, mkLead ''p3'' ''not a date'' []]"
  by (rule default_filters_keep_every_lead)

lemma withinRange_spec:
  "withinRange f price = withinRangeSpec (minBudget f) (maxBudget f) price"
  by (auto simp: withinRange_def withinRangeSpec_def split: option.splits)

lemma p1_raw:
  "rawOf p1 ''property_type'' = JNum 1"
  "rawOf p1 ''for_sale'' = JBool True"
  "rawOf p1 ''for_rent'' = JUndefined"
  "rawOf p1 ''price_sale'' = JNum 100000"
  "rawOf p1 ''price_rent'' = JUndefined"
  by (simp_all add: p1_def mkLead_def rawOf_def)

lemma scenario_matches: "leadMatches h (scenarioFilters maxB) p1 = (100000 \<le> maxB)"
  by (auto simp add: leadMatches_def scenarioFilters_def DEFAULT_LEAD_FILTERS_def clause_defs
      truthyStr_def p1_raw toNumber_def falsyNum_def withinRange_def)

text \<open>
  C2. The budget clause is the one of the specification: it is inactive when no bound is
  set; otherwise, with only sale selected the sale price must be within range, with only
  rent selected the rent price, and with both or neither selected one of the two prices;
  a lead that passes the filter passes the clause. The lead \<open>p1\<close> (type 1, for sale, sale
  price 100000) under the filters (types {1}, sale only, 50000 to 150000) is returned,
  and with the maximum 90000 it is not.
\<close>

theorem budget_clause_as_specified:
  "budgetClause h f l =
     (minBudget f \<noteq> None \<or> maxBudget f \<noteq> None \<longrightarrow>
        budgetSpec (sale (transaction f)) (rent (transaction f)) (minBudget f) (maxBudget f)
          (toNumber h (rawOf l ''price_sale'')) (toNumber h (rawOf l ''price_rent'')))
   \<and> (leadMatches h f l \<longrightarrow> budgetClause h f l)
   \<and> applyLeadFilters h [p1] (scenarioFilters 150000) = [p1]
   \<and> applyLeadFilters h [p1] (scenarioFilters 90000) = []"
proof (intro conjI)
  show "budgetClause h f l =
     (minBudget f \<noteq> None \<or> maxBudget f \<noteq> None \<longrightarrow>
        budgetSpec (sale (transaction f)) (rent (transaction f)) (minBudget f) (maxBudget f)
          (toNumber h (rawOf l ''price_sale'')) (toNumber h (rawOf l ''price_rent'')))"
    unfolding budgetClause_def budgetSpec_def Let_def withinRange_spec by auto
  show "leadMatches h f l \<longrightarrow> budgetClause h f l"
    by (simp add: leadMatches_conj)
  show "applyLeadFilters h [p1] (scenarioFilters 150000) = [p1]"
    by (simp add: applyLeadFilters_filter scenario_matches)
  show "applyLeadFilters h [p1] (scenarioFilters 90000) = []"
    by (simp add: applyLeadFilters_filter scenario_matches)
qed

theorem budget_clause_as_specified_witness:
  "minBudget (scenarioFilters 90000) \<noteq> None
   \<and> \<not> budgetSpec True False (Some 50000) (Some 90000) (Some 100000) None
   \<and> \<not> budgetClause testHost (scenarioFilters 90000) p1
   \<and> leadMatches testHost (scenarioFilters 150000) p1
   \<and> budgetClause testHost (scenarioFilters 150000) p1
   \<and> applyLeadFilters testHost [p1] (scenarioFilters 150000) = [p1]
   \<and> applyLeadFilters testHost [p1] (scenarioFilters 90000) = []"
proof -
  note low = budget_clause_as_specified [of testHost "scenarioFilters 90000" p1]
  note high = budget_clause_as_specified [of testHost "scenarioFilters 150000" p1]
  have sel: "sale (transaction (scenarioFilters m)) = True"
    "rent (transaction (scenarioFilters m)) = False"
    "minBudget (scenarioFilters m) = Some 50000"
    "maxBudget (scenarioFilters m) = Some m" for m
    by (simp_all add: scenarioFilters_def DEFAULT_LEAD_FILTERS_def)
  have prices: "toNumber testHost (rawOf p1 ''price_sale'') = Some 100000"
    "toNumber testHost (rawOf p1 ''price_rent'') = None"
    by (simp_all add: p1_raw toNumber_def)
  have spec: "\<not> budgetSpec True False (Some 50000) (Some 90000) (Some 100000) None"
    by (simp add: budgetSpec_def withinRangeSpec_def)
  have m: "leadMatches testHost (scenarioFilters 150000) p1"
    by (simp add: scenario_matches)
  from low spec have "\<not> budgetClause testHost (scenarioFilters 90000) p1"
    by (simp add: sel prices)
  moreover from high m have "budgetClause testHost (scenarioFilters 150000) p1"
    by blast
  ultimately show ?thesis
    using low high spec m by (simp add: sel)
qed

lemma region_clause_nonzero:
  "regionId f = Some r \<Longrightarrow> r \<noteq> 0 \<Longrightarrow>
   regionClause h f l = (toNumber h (rawOf l ''region_obj_id'') = Some r)"
  by (auto simp: regionClause_def falsyNum_def Let_def split: option.splits)

lemma region_clause_zero: "regionId f = Some 0 \<Longrightarrow> \<not> regionClause h f l"
  by (auto simp: regionClause_def falsyNum_def Let_def split: option.splits)

text \<open>
  C6. A lead whose \<open>region_obj_id\<close> is the number 0 is numeric and equal to the region
  asked for by the filter \<open>regionId = 0\<close>, and still fails the region clause: the lead is
  filtered out.
\<close>

theorem region_zero_is_rejected:
  "toNumber h (rawOf regionZeroLead ''region_obj_id'') = regionId regionZeroFilters
   \<and> regionId regionZeroFilters = Some 0
   \<and> \<not> regionClause h regionZeroFilters regionZeroLead
   \<and> applyLeadFilters h [regionZeroLead] regionZeroFilters = []"
  by (simp add: applyLeadFilters_filter leadMatches_conj region_clause_zero
      regionZeroFilters_def regionZeroLead_def mkLead_def rawOf_def toNumber_def)

theorem region_zero_is_rejected_witness:
  "applyLeadFilters testHost [regionZeroLead] regionZeroFilters = []"
  using region_zero_is_rejected [of testHost] by simp

text \<open>
  C10. For every list of leads and every filter specification the result of
  \<open>applyLeadFilters\<close> is a subsequence of the input: its elements are elements of the
  input in their input order, and no lead occurs more often than in the input.
\<close>

theorem filter_result_is_subsequence:
  "subseq (applyLeadFilters h ls f) ls
   \<and> set (applyLeadFilters h ls f) \<subseteq> set ls
   \<and> (\<forall>x. count_list (applyLeadFilters h ls f) x \<le> count_list ls x)"
proof (intro conjI allI)
  show "subseq (applyLeadFilters h ls f) ls"
    by (simp add: applyLeadFilters_filter)
  show "set (applyLeadFilters h ls f) \<subseteq> set ls"
    by (auto simp: applyLeadFilters_filter)
  show "count_list (applyLeadFilters h ls f) x \<le> count_list ls x" for x
    unfolding applyLeadFilters_filter by (induction ls) auto
qed

theorem filter_result_is_subsequence_witness:
  "subseq (applyLeadFilters testHost [p1, regionZeroLead, p1] (scenarioFilters 150000))
     [p1, regionZeroLead, p1]
   \<and> applyLeadFilters testHost [p1, regionZeroLead, p1] (scenarioFilters 150000) = [p1, p1]"
proof -
  have "\<not> leadMatches testHost (scenarioFilters 150000) regionZeroLead"
    by (simp add: leadMatches_conj propertyTypeClause_def scenarioFilters_def
        DEFAULT_LEAD_FILTERS_def regionZeroLead_def mkLead_def rawOf_def toNumber_def
        falsyNum_def)
  then have "applyLeadFilters testHost [p1, regionZeroLead, p1] (scenarioFilters 150000) = [p1, p1]"
    by (simp add: applyLeadFilters_filter scenario_matches)
  with filter_result_is_subsequence [of testHost "[p1, regionZeroLead, p1]" "scenarioFilters 150000"]
  show ?thesis by simp
qed

section \<open>Properties of the bulk send\<close>

lemma bulkLoop_result:
  "bulkLoop ok ids (s, f, calls) =
     (s + length (filter ok ids), f + length (filter (\<lambda>i. \<not> ok i) ids), calls @ ids)"
  by (induction ids arbitrary: s f calls) auto

lemma handleBulkSend_empty: "selectedIds st = [] \<Longrightarrow> handleBulkSend h ok st = st"
  by (simp add: handleBulkSend_def)

lemma showNat_small: "showNat 0 = str ''0''" "showNat 1 = str ''1''" "showNat 2 = str ''2''"
  by (simp_all add: str_def)

text \<open>
  C3. A bulk send over a non-empty selection calls \<open>sendWhatsApp\<close> once for each selected
  id, in the order of the selection, whatever the outcomes of the earlier calls. With
  \<open>successes\<close> the number of ids whose call resolved and \<open>failures\<close> the number of ids
  whose call threw, the two add up to the number of ids and the banner reports them:
  with no failure it has the success tone and the text ``Sent \<open>successes\<close> WhatsApp
  message(s).'', otherwise the error tone and the text ``Sent \<open>successes\<close> messages,
  \<open>failures\<close> failed.''. Afterwards the pending set and the selection are empty, and the
  lead list has been refreshed once if some call resolved and not at all otherwise.
\<close>

theorem bulk_send_outcome:
  assumes "selectedIds st \<noteq> []"
  shows "(let successes = length (filter ok (selectedIds st));
              failures = length (filter (\<lambda>i. \<not> ok i) (selectedIds st))
          in sendCalls (handleBulkSend h ok st) = sendCalls st @ selectedIds st
           \<and> successes + failures = length (selectedIds st)
           \<and> banner (handleBulkSend h ok st) =
               Some \<lparr> tone = (if failures = 0 then ToneSuccess else ToneError),
                      message =
                        (if failures = 0
                         then str ''Sent '' @ numberToString h (of_nat successes)
                              @ str '' WhatsApp message''
                              @ (if successes = 1 then [] else str ''s'') @ str ''.''
                         else str ''Sent '' @ numberToString h (of_nat successes)
                              @ str '' messages, '' @ numberToString h (of_nat failures)
                              @ str '' failed.'') \<rparr>
           \<and> pendingIds (handleBulkSend h ok st) = []
           \<and> selectedIds (handleBulkSend h ok st) = []
           \<and> refreshCalls (handleBulkSend h ok st) =
               refreshCalls st + (if 0 < successes then 1 else 0))"
  using assms sum_length_filter_compl [of ok "selectedIds st"]
  by (simp add: handleBulkSend_def bulkLoop_result Let_def bulkBanner_def)

theorem bulk_send_outcome_witness:
  "sendCalls (handleBulkSend testHost secondFails threeSelected)
       = [str ''a'', str ''b'', str ''c'']
   \<and> banner (handleBulkSend testHost secondFails threeSelected)
       = Some \<lparr> tone = ToneError, message = str ''Sent 2 messages, 1 failed.'' \<rparr>
   \<and> pendingIds (handleBulkSend testHost secondFails threeSelected) = []
   \<and> selectedIds (handleBulkSend testHost secondFails threeSelected) = []
   \<and> refreshCalls (handleBulkSend testHost secondFails threeSelected) = 1"
proof -
  have ne: "selectedIds threeSelected \<noteq> []"
    by (simp add: threeSelected_def)
  have sel: "selectedIds threeSelected = [str ''a'', str ''b'', str ''c'']"
    "sendCalls threeSelected = []" "refreshCalls threeSelected = 0"
    by (simp_all add: threeSelected_def)
  have len: "length (filter secondFails [str ''a'', str ''b'', str ''c'']) = 2"
    "length (filter (\<lambda>i. \<not> secondFails i) [str ''a'', str ''b'', str ''c'']) = 1"
    by (simp_all add: secondFails_def str_def)
  have num: "numberToString testHost (of_nat 2) = str ''2''"
    "numberToString testHost (of_nat 1) = str ''1''"
    by (simp_all add: testHost_def str_def)
  have joined: "str ''Sent '' @ str ''2'' @ str '' messages, '' @ str ''1'' @ str '' failed.''
      = str ''Sent 2 messages, 1 failed.''"
    by (simp add: str_def)
  show ?thesis
    using bulk_send_outcome [OF ne, of secondFails testHost, unfolded sel len Let_def num]
    by (simp add: joined)
qed


section \<open>Properties of the reply send\<close>





section \<open>Properties of the sort\<close>

lemma set_sortInsert: "set (sortInsert cmp x ys) = insert x (set ys)"
  by (induction ys) auto

lemma set_arraySort: "set (arraySort cmp xs) = set xs"
  by (induction xs) (auto simp: arraySort_def set_sortInsert)





section \<open>Properties of groupByDateAdded\<close>



lemma formatDayHeader_valid:
  "parses h l \<Longrightarrow> formatDayHeader h (date_added l) = Inr (labelOf h l)"
  by (auto simp: parses_def formatDayHeader_def ensureDate_def differenceInCalendarDays_def
      isSameYear_def format_def labelOf_def dayLabel_def instant_def)



















lemma sample_dates:
  "date_added p1 = str ''2024-01-01''"
  "date_added jan3Lead = str ''2024-01-03''"
  "date_added jan2Lead = str ''2024-01-02''"
  "date_added jan2NoonLead = str ''2024-01-02T12:00:00Z''"
  "date_added undatedLead = str ''not a date''"
  "date_added blankDateLead = []"
  by (simp_all add: p1_def jan3Lead_def jan2Lead_def jan2NoonLead_def undatedLead_def
      blankDateLead_def mkLead_def str_def)

lemma parse_facts:
  "parseISO testHost (str ''2024-01-01'') = Some 1704067200000"
  "parseISO testHost (str ''2024-01-03'') = Some 1704240000000"
  "parseISO testHost (str ''2024-01-02'') = Some 1704153600000"
  "parseISO testHost (str ''2024-01-02T12:00:00Z'') = Some 1704196800000"
  "parseISO testHost (str ''not a date'') = None"
  "parseISO testHost [] = None"
  by (simp_all add: testHost_def knownDates_def str_def)

lemma str_nonempty:
  "str ''2024-01-01'' \<noteq> []" "str ''2024-01-03'' \<noteq> []" "str ''2024-01-02'' \<noteq> []"
  "str ''2024-01-02T12:00:00Z'' \<noteq> []" "str ''not a date'' \<noteq> []"
  by (simp_all add: str_def)

lemma sample_instants:
  "instant testHost p1 = 1704067200000"
  "instant testHost jan3Lead = 1704240000000"
  "instant testHost jan2Lead = 1704153600000"
  "instant testHost jan2NoonLead = 1704196800000"
  by (simp_all add: instant_def sample_dates parse_facts)

lemma host_fields:
  "calendarDayDiff testHost a b = a div msPerDay - b div msPerDay"
  "sameYear testHost a b = (a div (365 * msPerDay) = b div (365 * msPerDay))"
  "formatValid testHost t p = p @ str '' of day '' @ showNat (nat (t div msPerDay))"
  "TODAY testHost = 1704240000000"
  by (simp_all add: testHost_def)

lemma showNat_19723: "showNat 19723 = str ''19723''"
  by (simp add: str_def)

lemma sample_labels:
  "labelOf testHost p1 = str ''d MMM of day 19723''"
  "labelOf testHost jan3Lead = str ''Today''"
  "labelOf testHost jan2Lead = str ''Yesterday''"
  "labelOf testHost jan2NoonLead = str ''Yesterday''"
  by (simp_all add: labelOf_def dayLabel_def sample_instants host_fields msPerDay_def
      showNat_19723 del: showNat.simps) (simp add: str_def)

lemma label_distinct:
  "str ''Today'' \<noteq> str ''Yesterday''" "str ''Today'' \<noteq> str ''d MMM of day 19723''"
  "str ''Yesterday'' \<noteq> str ''d MMM of day 19723''"
  "str ''Yesterday'' \<noteq> str ''Today''" "str ''d MMM of day 19723'' \<noteq> str ''Today''"
  "str ''d MMM of day 19723'' \<noteq> str ''Yesterday''"
  "str ''Unknown date'' \<noteq> str ''d MMM of day 19723''"
  by (simp_all add: str_def)





lemma formatDayHeader_invalid:
  "v \<noteq> [] \<Longrightarrow> parseISO h v = None \<Longrightarrow> formatDayHeader h v = Inl RangeError"
  by (simp add: formatDayHeader_def ensureDate_def differenceInCalendarDays_def
      isSameYear_def format_def)

lemma formatDayHeader_empty: "formatDayHeader h [] = Inr (str ''Unknown date'')"
  by (simp add: formatDayHeader_def ensureDate_def)

lemma groupLoop_fails:
  "x \<in> set xs \<Longrightarrow> formatDayHeader h (date_added x) = Inl RangeError \<Longrightarrow>
   groupLoop h m xs = Inl RangeError"
proof (induction xs arbitrary: m)
  case Nil
  then show ?case by simp
next
  case (Cons y ys)
  show ?case
  proof (cases "formatDayHeader h (date_added y)")
    case (Inl e)
    then show ?thesis by (cases e) simp
  next
    case (Inr lab)
    with Cons.prems have "x \<in> set ys" by auto
    with Cons.IH Cons.prems(2) Inr show ?thesis by simp
  qed
qed

text \<open>
  C4. When some lead of the collection has a \<open>date_added\<close> that is not empty and does not
  parse, \<open>groupByDateAdded\<close> returns no groups at all: the formatting of the header of
  that lead throws a \<open>RangeError\<close>, which ends the call.
\<close>

theorem unparseable_date_makes_grouping_fail:
  assumes "l \<in> set ls" and "date_added l \<noteq> []" and "parseISO h (date_added l) = None"
  shows "groupByDateAdded h ls = Inl RangeError"
proof -
  from assms(1) have "l \<in> set (arraySort (compareDateAdded h) ls)"
    by (simp add: set_arraySort)
  moreover from assms(2,3) have "formatDayHeader h (date_added l) = Inl RangeError"
    by (rule formatDayHeader_invalid)
  ultimately have "groupLoop h [] (arraySort (compareDateAdded h) ls) = Inl RangeError"
    by (rule groupLoop_fails)
  then show ?thesis by (simp add: groupByDateAdded_def)
qed

theorem unparseable_date_makes_grouping_fail_witness:
  "date_added undatedLead = str ''not a date''
   \<and> parseISO testHost (date_added undatedLead) = None
   \<and> groupByDateAdded testHost [p1, undatedLead] = Inl RangeError"
proof -
  have a: "undatedLead \<in> set [p1, undatedLead]" by simp
  have b: "date_added undatedLead \<noteq> []" by (simp add: sample_dates str_nonempty)
  have c: "parseISO testHost (date_added undatedLead) = None"
    by (simp add: sample_dates parse_facts)
  from unparseable_date_makes_grouping_fail [OF a b c] c show ?thesis
    by (simp add: sample_dates)
qed

text \<open>A lead with an empty date gets the header ``Unknown date'', and stays where it
  was in the input: here in front of a lead whose date parses.\<close>

lemma blank_date_is_not_sorted_last:
  "groupByDateAdded testHost [blankDateLead, p1]
   = Inr [ \<lparr> LeadGroup.label = str ''Unknown date'', leads = [blankDateLead] \<rparr>,
           \<lparr> LeadGroup.label = str ''d MMM of day 19723'', leads = [p1] \<rparr> ]"
proof -
  have s: "arraySort (compareDateAdded testHost) [blankDateLead, p1] = [blankDateLead, p1]"
    by (simp add: arraySort_def comesAfter_def compareDateAdded_def sample_dates parse_facts)
  have "parses testHost p1"
    by (simp add: parses_def sample_dates parse_facts str_nonempty)
  then have "formatDayHeader testHost (date_added p1) = Inr (str ''d MMM of day 19723'')"
    by (simp add: formatDayHeader_valid sample_labels)
  then show ?thesis
    by (simp add: groupByDateAdded_def s sample_dates formatDayHeader_empty label_distinct)
qed















section \<open>Properties of deriveFilterOptions\<close>

























text \<open>
  On a host that compares code units the regions of the three leads come out with
  ``Cluj'' in front of ``alba'', which is not the case-insensitive ascending order.
\<close>

lemma codeUnit_consistent: "consistentComparator (localeCompare codeUnitHost)"
  unfolding consistentComparator_def codeUnitHost_def testHost_def
  by (auto split: if_splits)








end
